theory Spec2Isabelle
  imports Complex_Main
begin

section \<open>Values, tensors and exceptions\<close>

text \<open>
  The synthesizers of \<^verbatim>\<open>ddsp/synths.py\<close> work on rank-3 tensors of shape
  \<^verbatim>\<open>[batch, time, channels]\<close>. A tensor is a list (batch) of lists (frames) of lists
  (channels). Finite tensor entries are real numbers: the rounding of float32 results is
  not part of this model. The non-finite values are: a float32 sum or quotient whose
  magnitude reaches the overflow threshold is an infinity, and IEEE division by zero and
  by an infinity is written out in \<open>fdiv\<close>. The normalization step of
  \<^verbatim>\<open>Additive.get_controls\<close> is the only place of the two source files that can create a
  non-finite value from finite entries.
\<close>

type_synonym 'a tensor = "'a list list list"

datatype fval = Fin real | PInf | NInf | NaN

text \<open>
  An exception raised by a call is the left summand of its result. \<open>ValueError\<close>,
  \<open>TypeError\<close>, \<open>AttributeError\<close> and \<open>KeyError\<close> are the Python exceptions the code
  can raise. The other four are the error classes the specification names:
  \<open>ShapeMismatchError\<close> is what the primitives of \<^verbatim>\<open>ddsp.core\<close>, modelled from the
  specification, report for tensors of incompatible shapes; no path of the two source
  files raises \<open>InvalidControlError\<close>, \<open>CheckpointNotFoundError\<close> or
  \<open>MisconfiguredModelError\<close>.
\<close>

datatype error =
    ValueError
  | TypeError
  | AttributeError
  | KeyError string
  | ShapeMismatchError
  | InvalidControlError
  | CheckpointNotFoundError
  | MisconfiguredModelError

text \<open>
  The result of a float32 operation is infinite when the magnitude of the exact result
  reaches \<^verbatim>\<open>(2 - 2^-24) * 2^127\<close>, half a unit in the last place above the
  largest float32.
\<close>

definition float32_overflow :: real where
  "float32_overflow = (2 - 1 / 2 ^ 24) * 2 ^ 127"

definition overflow :: "real \<Rightarrow> fval" where
  "overflow x =
     (if float32_overflow \<le> x then PInf
      else if x \<le> - float32_overflow then NInf
      else Fin x)"

text \<open>
  \<^verbatim>\<open>x / d\<close> on float tensors, entry by entry, for a finite dividend: a zero divisor gives
  an infinity of the sign of the dividend, \<^verbatim>\<open>0 / 0\<close> gives NaN, and an infinite divisor
  gives zero. (HOL's own \<open>x / 0\<close> is \<open>0\<close>, which the code never computes.)
\<close>

fun fdiv :: "real \<Rightarrow> fval \<Rightarrow> fval" where
  "fdiv x (Fin d) =
     (if d \<noteq> 0 then overflow (x / d)
      else if 0 < x then PInf
      else if x < 0 then NInf
      else NaN)"
| "fdiv x PInf = Fin 0"
| "fdiv x NInf = Fin 0"
| "fdiv x NaN = NaN"

text \<open>Addition of two float values, with the IEEE rules for NaN and the infinities.\<close>

fun fadd :: "fval \<Rightarrow> fval \<Rightarrow> fval" where
  "fadd (Fin a) (Fin b) = overflow (a + b)"
| "fadd NaN _ = NaN"
| "fadd _ NaN = NaN"
| "fadd PInf NInf = NaN"
| "fadd NInf PInf = NaN"
| "fadd PInf _ = PInf"
| "fadd _ PInf = PInf"
| "fadd NInf _ = NInf"
| "fadd _ NInf = NInf"

text \<open>
  The sum of one frame along the harmonic axis, over float values, added from left to
  right. (The order in which \<^verbatim>\<open>tf.reduce_sum\<close> adds is not fixed; without rounding it
  matters only for frames with entries of both signs.)
\<close>

definition fsum :: "fval list \<Rightarrow> fval" where
  "fsum row = foldl fadd (Fin 0) row"

definition reduce_sum :: "real list \<Rightarrow> fval" where
  "reduce_sum row = fsum (map Fin row)"

fun is_finite :: "fval \<Rightarrow> bool" where
  "is_finite (Fin _) = True"
| "is_finite _ = False"

text \<open>
  \<^verbatim>\<open>int(x.shape[-1])\<close>: the length of the channel axis, read off the first frame.
  A tensor without any frame has no entry the result could matter for.
\<close>

definition trailing_dim :: "'a tensor \<Rightarrow> nat" where
  "trailing_dim x = (case concat x of [] \<Rightarrow> 0 | fr # _ \<Rightarrow> length fr)"

definition same_shape :: "'a tensor \<Rightarrow> 'b tensor \<Rightarrow> bool" where
  "same_shape x y \<longleftrightarrow>
     list_all2 (\<lambda>r s. list_all2 (\<lambda>c d. length c = length d) r s) x y"

text \<open>A tensor of shape \<^verbatim>\<open>[B, T, K]\<close>.\<close>

definition has_shape :: "nat \<Rightarrow> nat \<Rightarrow> nat \<Rightarrow> 'a tensor \<Rightarrow> bool" where
  "has_shape B T K x \<longleftrightarrow>
     length x = B \<and> list_all (\<lambda>r. length r = T \<and> list_all (\<lambda>c. length c = K) r) x"

section \<open>The primitives of \<^verbatim>\<open>ddsp.core\<close> used by the synthesizers\<close>

text \<open>
  Modelled from the spec: \<^verbatim>\<open>core.get_harmonic_frequencies\<close> is not part of the
  sources at hand. The specification describes the harmonic frequency tensor as
  \<^verbatim>\<open>f0_hz\<close> (trailing dimension 1) multiplied by the harmonic index
  \<^verbatim>\<open>1..n_harmonics\<close>, broadcast across the harmonic axis. A frequency tensor whose
  trailing dimension is not 1 is a shape mismatch.
\<close>

definition get_harmonic_frequencies :: "real tensor \<Rightarrow> nat \<Rightarrow> error + real tensor" where
  "get_harmonic_frequencies frequencies n_harmonics =
     (if list_all (list_all (\<lambda>fr. length fr = 1)) frequencies
      then Inr (map (map (\<lambda>fr. map (\<lambda>k. hd fr * real k) [1..<Suc n_harmonics]))
                  frequencies)
      else Inl ShapeMismatchError)"

text \<open>
  Modelled from the spec: \<^verbatim>\<open>core.remove_above_nyquist\<close> is not part of the sources
  at hand. The specification: zero out any harmonic-distribution entry whose harmonic
  frequency exceeds half the sample rate, for every batch/frame/harmonic position
  independently. The two tensors must have the same shape.
\<close>

definition remove_above_nyquist ::
  "real tensor \<Rightarrow> real tensor \<Rightarrow> int \<Rightarrow> error + real tensor" where
  "remove_above_nyquist frequency_envelopes amplitude_envelopes sample_rate =
     (if same_shape frequency_envelopes amplitude_envelopes
      then Inr (map2 (map2 (map2 (\<lambda>f a. if real_of_int sample_rate / 2 < f then 0 else a)))
                  frequency_envelopes amplitude_envelopes)
      else Inl ShapeMismatchError)"

section \<open>The additive synthesizer\<close>

text \<open>
  The fields of \<^verbatim>\<open>Additive.__init__\<close>. The amplitude scaling function is a callable
  from tensors to tensors, or \<^verbatim>\<open>None\<close>; \<open>'f\<close> is the type of the callable. A callable
  without effects is a function \<open>real tensor \<Rightarrow> real tensor\<close>. A Python callable can also
  read and change state that is not among its arguments, the random generator of
  TensorFlow in particular: with \<open>'w\<close> the type of that state, such a callable takes the
  tensor and the state and returns the result and the new state.
\<close>

record 'f additive =
  n_samples :: int
  sample_rate :: int
  amp_scale_fn :: "'f option"
  normalize_below_nyquist :: bool
  name :: string

type_synonym 'w effectful = "real tensor \<Rightarrow> 'w \<Rightarrow> real tensor \<times> 'w"

text \<open>A callable without effects, as an effectful one: the state is neither read nor changed.\<close>

definition pure_callable :: "(real tensor \<Rightarrow> real tensor) \<Rightarrow> 'w effectful" where
  "pure_callable g x w = (g x, w)"

text \<open>The dictionary returned by \<^verbatim>\<open>Additive.get_controls\<close>, which has three fixed keys.\<close>

record additive_controls =
  amplitudes :: "real tensor"
  harmonic_distribution :: "fval tensor"
  f0_hz :: "real tensor"

text \<open>Lines 61-67: scale the amplitudes.\<close>

definition scale_controls ::
  "(real tensor \<Rightarrow> real tensor) option \<Rightarrow> real tensor \<Rightarrow> real tensor" where
  "scale_controls fn x = (case fn of Some g \<Rightarrow> g x | None \<Rightarrow> x)"

text \<open>Lines 69-76: bandlimit the (scaled) harmonic distribution.\<close>

definition bandlimit ::
  "'f additive \<Rightarrow> real tensor \<Rightarrow> real tensor \<Rightarrow> error + real tensor" where
  "bandlimit self harmonic_dist f0 =
     (if normalize_below_nyquist self then
        (let n_harmonics = trailing_dim harmonic_dist in
         case get_harmonic_frequencies f0 n_harmonics of
           Inl e \<Rightarrow> Inl e
         | Inr harmonic_frequencies \<Rightarrow>
             remove_above_nyquist harmonic_frequencies harmonic_dist (sample_rate self))
      else Inr harmonic_dist)"

text \<open>
  Lines 78-81: divide every entry by the sum of its frame
  (\<^verbatim>\<open>tf.reduce_sum(..., axis=-1, keepdims=True)\<close>, broadcast along the harmonic axis).
\<close>

definition normalize_frame :: "real list \<Rightarrow> fval list" where
  "normalize_frame row = map (\<lambda>x. fdiv x (reduce_sum row)) row"

definition normalize :: "real tensor \<Rightarrow> fval tensor" where
  "normalize x = map (map normalize_frame) x"

text \<open>The harmonic distribution just before the normalization step (lines 61-76).\<close>

definition pre_normalization ::
  "(real tensor \<Rightarrow> real tensor) additive \<Rightarrow> real tensor \<Rightarrow> real tensor \<Rightarrow> error + real tensor" where
  "pre_normalization self nn_out_harmonic_distribution f0 =
     bandlimit self (scale_controls (amp_scale_fn self) nn_out_harmonic_distribution) f0"

definition get_controls ::
  "(real tensor \<Rightarrow> real tensor) additive \<Rightarrow> real tensor \<Rightarrow> real tensor \<Rightarrow> real tensor \<Rightarrow> error + additive_controls" where
  "get_controls self nn_out_amplitudes nn_out_harmonic_distribution f0 =
     (case pre_normalization self nn_out_harmonic_distribution f0 of
        Inl e \<Rightarrow> Inl e
      | Inr harmonic_dist \<Rightarrow>
          Inr \<lparr>amplitudes = scale_controls (amp_scale_fn self) nn_out_amplitudes,
               harmonic_distribution = normalize harmonic_dist,
               f0_hz = f0\<rparr>)"

text \<open>
  \<^verbatim>\<open>Additive.get_controls\<close> (lines 45-86) with an effectful scaling function, run from
  the state \<open>w\<close>: the amplitudes are scaled first (line 63), then the harmonic
  distribution (line 64); nothing else of the function reads or changes the state. The
  result is what the call returns or raises, and the state it leaves.
\<close>

definition call_scale :: "'w effectful option \<Rightarrow> real tensor \<Rightarrow> 'w \<Rightarrow> real tensor \<times> 'w" where
  "call_scale fn x w = (case fn of Some g \<Rightarrow> g x w | None \<Rightarrow> (x, w))"

definition run_get_controls ::
  "'w effectful additive \<Rightarrow> real tensor \<Rightarrow> real tensor \<Rightarrow> real tensor \<Rightarrow> 'w \<Rightarrow>
   (error + additive_controls) \<times> 'w" where
  "run_get_controls self nn_out_amplitudes nn_out_harmonic_distribution f0 w =
     (case call_scale (amp_scale_fn self) nn_out_amplitudes w of
        (amps, w1) \<Rightarrow>
     (case call_scale (amp_scale_fn self) nn_out_harmonic_distribution w1 of
        (scaled_dist, w2) \<Rightarrow>
     (case bandlimit self scaled_dist f0 of
        Inl e \<Rightarrow> (Inl e, w2)
      | Inr harmonic_dist \<Rightarrow>
          (Inr \<lparr>amplitudes = amps,
                harmonic_distribution = normalize harmonic_dist,
                f0_hz = f0\<rparr>, w2))))"

section \<open>The filtered-noise synthesizer\<close>

record 'f filtered_noise =
  fn_n_samples :: int
  window_size :: int
  fn_amp_scale_fn :: "'f option"
  noise_fade_fn :: "(unit \<Rightarrow> real list list) option"
  fn_name :: string

record filtered_noise_controls =
  magnitudes :: "real tensor"

text \<open>
  \<^verbatim>\<open>FilteredNoise.get_controls\<close> (lines 128-144) has no raising path: its result is
  always a dictionary.
\<close>

definition fn_get_controls ::
  "(real tensor \<Rightarrow> real tensor) filtered_noise \<Rightarrow> real tensor \<Rightarrow>
   error + filtered_noise_controls" where
  "fn_get_controls self nn_outputs =
     Inr \<lparr>magnitudes = scale_controls (fn_amp_scale_fn self) nn_outputs\<rparr>"

text \<open>The same function with an effectful scaling function, run from the state \<open>w\<close>.\<close>

definition run_fn_get_controls ::
  "'w effectful filtered_noise \<Rightarrow> real tensor \<Rightarrow> 'w \<Rightarrow>
   (error + filtered_noise_controls) \<times> 'w" where
  "run_fn_get_controls self nn_outputs w =
     (case call_scale (fn_amp_scale_fn self) nn_outputs w of
        (mags, w1) \<Rightarrow> (Inr \<lparr>magnitudes = mags\<rparr>, w1))"

section \<open>The model wrapper\<close>

text \<open>
  \<^verbatim>\<open>ddsp/training/model.py\<close>. The collaborators of a \<^verbatim>\<open>Model\<close> are opaque
  callables; each may raise. \<open>'a\<close> is the type of the tensors they exchange, \<open>'c\<close> the
  type of the conditioning dictionary, and \<open>'v\<close> the type of a scalar loss value, of
  which only \<open>0\<close> and \<open>+\<close> are used: no law of addition is assumed, so the order of
  accumulation stays visible.
\<close>

record variable =
  var_name :: string
  var_shape :: "nat list"
  var_dtype :: string

record pretrained =
  trainable_variables :: "variable list"

record ('a, 'v) loss =
  loss_name :: string
  loss_call :: "'a \<Rightarrow> 'a \<Rightarrow> error + 'v"
  pretrained_model :: "pretrained option"

text \<open>
  A processor group has a name and \<^verbatim>\<open>get_outputs\<close>, which returns a dictionary from
  component names to dictionaries of tensors.
\<close>

record ('a, 'c) processor_group =
  pg_name :: string
  pg_get_outputs :: "'c \<Rightarrow> error + (string \<rightharpoonup> (string \<rightharpoonup> 'a))"

text \<open>
  The outputs dictionary of one forward pass holds the dictionaries of the processor
  group, the generated audio, and the scalar losses.
\<close>

datatype ('a, 'v) entry = Group "string \<rightharpoonup> 'a" | Tensor 'a | Scalar 'v

type_synonym ('a, 'v) outputs = "string \<rightharpoonup> ('a, 'v) entry"

record ('a, 'c, 'v) model =
  preprocessor :: "(string \<rightharpoonup> 'a) \<Rightarrow> bool \<Rightarrow> error + 'c"
  encoder :: "('c \<Rightarrow> error + 'c) option"
  decoder :: "('c \<Rightarrow> error + 'c) option"
  processor_group :: "('a, 'c) processor_group option"
  losses :: "('a, 'v) loss list"
  tb_metrics :: "string \<rightharpoonup> 'v list"

text \<open>
  Modelled from the spec: \<^verbatim>\<open>core.make_iterable\<close> is not part of the sources at hand.
  The specification describes the losses of a model as an ordered sequence of loss
  callables; a sequence is kept as it is.
\<close>

definition make_iterable :: "'x list \<Rightarrow> 'x list" where
  "make_iterable x = x"

text \<open>
  \<^verbatim>\<open>Model.__init__\<close> (lines 39-54). \<^verbatim>\<open>x or default\<close> takes the default when \<open>x\<close> is
  \<^verbatim>\<open>None\<close> or, for the losses, the empty list. The defaults
  \<^verbatim>\<open>preprocessing.DefaultPreprocessor()\<close> and \<^verbatim>\<open>ddsp.losses.SpectralLoss()\<close> are
  parameters. The constructor checks nothing and has no raising path.
\<close>

definition Model_init ::
  "((string \<rightharpoonup> 'a) \<Rightarrow> bool \<Rightarrow> error + 'c) \<Rightarrow> ('a, 'v) loss \<Rightarrow>
   ((string \<rightharpoonup> 'a) \<Rightarrow> bool \<Rightarrow> error + 'c) option \<Rightarrow>
   ('c \<Rightarrow> error + 'c) option \<Rightarrow> ('c \<Rightarrow> error + 'c) option \<Rightarrow>
   ('a, 'c) processor_group option \<Rightarrow> ('a, 'v) loss list option \<Rightarrow> ('a, 'c, 'v) model" where
  "Model_init default_preprocessor spectral_loss preprocessor_arg encoder_arg decoder_arg
      processor_group_arg losses_arg =
     \<lparr>preprocessor = (case preprocessor_arg of None \<Rightarrow> default_preprocessor | Some p \<Rightarrow> p),
      encoder = encoder_arg,
      decoder = decoder_arg,
      processor_group = processor_group_arg,
      losses = make_iterable
                 (case losses_arg of
                    None \<Rightarrow> [spectral_loss]
                  | Some [] \<Rightarrow> [spectral_loss]
                  | Some (l # ls) \<Rightarrow> l # ls),
      tb_metrics = Map.empty\<rparr>"

text \<open>
  \<^verbatim>\<open>add_tb_metric\<close> (lines 139-143): the mean of a scalar is the scalar itself, and
  \<^verbatim>\<open>expand_dims\<close> makes it a one-element vector.
\<close>

definition add_tb_metric :: "string \<Rightarrow> 'v \<Rightarrow> (string \<rightharpoonup> 'v list) \<Rightarrow> (string \<rightharpoonup> 'v list)" where
  "add_tb_metric nm tensor tb = tb(nm \<mapsto> [tensor])"

text \<open>Lines 61-68: preprocessing, then the encoder when there is one.\<close>

definition encode :: "('a, 'c, 'v) model \<Rightarrow> (string \<rightharpoonup> 'a) \<Rightarrow> bool \<Rightarrow> error + 'c" where
  "encode self features is_training =
     (case preprocessor self features is_training of
        Inl e \<Rightarrow> Inl e
      | Inr conditioning \<Rightarrow>
          (case encoder self of
             Some enc \<Rightarrow> enc conditioning
           | None \<Rightarrow> Inr conditioning))"

text \<open>
  Lines 70-78: the decoder and the processor group. Calling \<^verbatim>\<open>None\<close> raises
  \<^verbatim>\<open>TypeError\<close>, an attribute of \<^verbatim>\<open>None\<close> raises \<^verbatim>\<open>AttributeError\<close>, a missing
  dictionary key raises \<^verbatim>\<open>KeyError\<close>. The result is the dictionary of the processor
  group and the generated audio \<^verbatim>\<open>outputs[self.processor_group.name]['signal']\<close>.
\<close>

definition synthesize ::
  "('a, 'c, 'v) model \<Rightarrow> (string \<rightharpoonup> 'a) \<Rightarrow> bool \<Rightarrow>
   error + ((string \<rightharpoonup> (string \<rightharpoonup> 'a)) \<times> 'a)" where
  "synthesize self features is_training =
     (case encode self features is_training of
        Inl e \<Rightarrow> Inl e
      | Inr conditioning \<Rightarrow>
     (case decoder self of
        None \<Rightarrow> Inl TypeError
      | Some dec \<Rightarrow>
     (case dec conditioning of
        Inl e \<Rightarrow> Inl e
      | Inr conditioning' \<Rightarrow>
     (case processor_group self of
        None \<Rightarrow> Inl AttributeError
      | Some pg \<Rightarrow>
     (case pg_get_outputs pg conditioning' of
        Inl e \<Rightarrow> Inl e
      | Inr outputs \<Rightarrow>
     (case outputs (pg_name pg) of
        None \<Rightarrow> Inl (KeyError (pg_name pg))
      | Some grp \<Rightarrow>
     (case grp ''signal'' of
        None \<Rightarrow> Inl (KeyError ''signal'')
      | Some audio_gen \<Rightarrow> Inr (outputs, audio_gen))))))))"

text \<open>Line 84: one loss term, \<^verbatim>\<open>loss_obj(features['audio'], audio_gen)\<close>.\<close>

definition loss_term :: "(string \<rightharpoonup> 'a) \<Rightarrow> 'a \<Rightarrow> ('a, 'v) loss \<Rightarrow> error + 'v" where
  "loss_term features audio_gen loss_obj =
     (case features ''audio'' of
        None \<Rightarrow> Inl (KeyError ''audio'')
      | Some audio \<Rightarrow> loss_call loss_obj audio audio_gen)"

text \<open>
  Lines 83-88: the loop over the losses. Its state is \<^verbatim>\<open>total_loss\<close>,
  \<^verbatim>\<open>loss_dict\<close> and \<^verbatim>\<open>self.tb_metrics\<close>.
\<close>

fun loss_loop ::
  "('a, 'v::plus) loss list \<Rightarrow> (string \<rightharpoonup> 'a) \<Rightarrow> 'a \<Rightarrow>
   'v \<times> (string \<rightharpoonup> 'v) \<times> (string \<rightharpoonup> 'v list) \<Rightarrow>
   error + ('v \<times> (string \<rightharpoonup> 'v) \<times> (string \<rightharpoonup> 'v list))" where
  "loss_loop [] features audio_gen st = Inr st"
| "loss_loop (loss_obj # rest) features audio_gen (total_loss, loss_dict, tb) =
     (case loss_term features audio_gen loss_obj of
        Inl e \<Rightarrow> Inl e
      | Inr term \<Rightarrow>
          (let nm = ''losses/'' @ loss_name loss_obj in
           loss_loop rest features audio_gen
             (total_loss + term, loss_dict(nm \<mapsto> term), add_tb_metric nm term tb)))"

text \<open>
  \<^verbatim>\<open>Model.get_outputs\<close> (lines 59-96). The global training step
  (\<^verbatim>\<open>tf.train.get_or_create_global_step()\<close>) is a parameter. The result is the outputs
  dictionary together with the model, whose \<^verbatim>\<open>tb_metrics\<close> the call has updated.
\<close>

definition get_outputs ::
  "('a, 'c, 'v::{plus,zero}) model \<Rightarrow> 'v \<Rightarrow> (string \<rightharpoonup> 'a) \<Rightarrow> bool \<Rightarrow>
   error + (('a, 'v) outputs \<times> ('a, 'c, 'v) model)" where
  "get_outputs self global_step features is_training =
     (case synthesize self features is_training of
        Inl e \<Rightarrow> Inl e
      | Inr (pg_outputs, audio_gen) \<Rightarrow>
          (let outputs = (map_option Group \<circ> pg_outputs)(''audio_gen'' \<mapsto> Tensor audio_gen) in
           case loss_loop (losses self) features audio_gen (0, Map.empty, tb_metrics self) of
             Inl e \<Rightarrow> Inl e
           | Inr (total_loss, loss_dict, tb) \<Rightarrow>
               (let tb1 = add_tb_metric ''loss'' total_loss tb;
                    tb2 = add_tb_metric ''global_step'' global_step tb1;
                    outputs1 = outputs ++ (map_option Scalar \<circ> loss_dict);
                    outputs2 = outputs1(''total_loss'' \<mapsto> Scalar total_loss)
                in Inr (outputs2, self\<lparr>tb_metrics := tb2\<rparr>))))"

text \<open>\<^verbatim>\<open>model.get_outputs(features)[key]\<close>: one entry of the returned dictionary.\<close>

definition output_entry ::
  "error + (('a, 'v) outputs \<times> ('a, 'c, 'v) model) \<Rightarrow> string \<Rightarrow> error + ('a, 'v) entry" where
  "output_entry r key =
     (case r of
        Inl e \<Rightarrow> Inl e
      | Inr (outputs, _) \<Rightarrow>
          (case outputs key of None \<Rightarrow> Inl (KeyError key) | Some v \<Rightarrow> Inr v))"

text \<open>The property \<^verbatim>\<open>pretrained_models\<close> (lines 98-105).\<close>

definition pretrained_models :: "('a, 'c, 'v) model \<Rightarrow> pretrained list" where
  "pretrained_models self =
     concat (map (\<lambda>loss_obj. case pretrained_model loss_obj of None \<Rightarrow> [] | Some m \<Rightarrow> [m])
               (losses self))"

text \<open>
  \<^verbatim>\<open>get_variables_to_optimize\<close> (lines 120-137). The global registry
  \<^verbatim>\<open>tf.trainable_variables()\<close> is a parameter; the logging calls have no effect on the
  result.
\<close>

definition get_variables_to_optimize ::
  "('a, 'c, 'v) model \<Rightarrow> variable list \<Rightarrow> variable list" where
  "get_variables_to_optimize self all_trainables =
     (let vars_to_freeze = concat (map trainable_variables (pretrained_models self));
          var_names_to_freeze = map var_name vars_to_freeze
      in filter (\<lambda>x. var_name x \<notin> set var_names_to_freeze) all_trainables)"

section \<open>Restoring a checkpoint\<close>

text \<open>
  What \<^verbatim>\<open>Model.restore\<close> uses of its environment: path expansion
  (\<^verbatim>\<open>os.path.expandvars\<close>, \<^verbatim>\<open>os.path.expanduser\<close>), the file system as seen by
  \<^verbatim>\<open>tf.train.latest_checkpoint\<close> (\<^verbatim>\<open>None\<close> when the directory holds no checkpoint),
  and the loading of a checkpoint file into a session.
\<close>

record 's environment =
  expandvars :: "string \<Rightarrow> string"
  expanduser :: "string \<Rightarrow> string"
  latest_checkpoint :: "string \<Rightarrow> string option"
  load_checkpoint :: "variable list \<Rightarrow> 's \<Rightarrow> string \<Rightarrow> error + 's"

text \<open>
  \<^verbatim>\<open>tf.train.Saver(var_list=...)\<close> raises \<^verbatim>\<open>ValueError\<close> ("No variables to save")
  for an empty list, and \<^verbatim>\<open>Saver.restore(sess, save_path)\<close> raises \<^verbatim>\<open>ValueError\<close>
  ("Can't load save_path when it is None") when \<^verbatim>\<open>save_path\<close> is \<^verbatim>\<open>None\<close>.
\<close>

definition Saver :: "variable list \<Rightarrow> error + variable list" where
  "Saver var_list = (if var_list = [] then Inl ValueError else Inr var_list)"

definition Saver_restore ::
  "'s environment \<Rightarrow> variable list \<Rightarrow> 's \<Rightarrow> string option \<Rightarrow> error + 's" where
  "Saver_restore env saver sess save_path =
     (case save_path of
        None \<Rightarrow> Inl ValueError
      | Some path \<Rightarrow> load_checkpoint env saver sess path)"

text \<open>
  \<^verbatim>\<open>Model.restore\<close> (lines 170-184). The timing and logging calls have no effect on the
  result.
\<close>

definition restore ::
  "('a, 'c, 'v) model \<Rightarrow> 's environment \<Rightarrow> variable list \<Rightarrow> 's \<Rightarrow> string \<Rightarrow> error + 's" where
  "restore self env all_trainables sess checkpoint_dir =
     (let trainable_vars = get_variables_to_optimize self all_trainables in
      case Saver trainable_vars of
        Inl e \<Rightarrow> Inl e
      | Inr saver \<Rightarrow>
          (let checkpoint_path = expanduser env (expandvars env checkpoint_dir);
               checkpoint = latest_checkpoint env checkpoint_path
           in Saver_restore env saver sess checkpoint))"

section \<open>Example configurations\<close>

text \<open>
  Small concrete models, on which the theorems below are instantiated: two losses with
  given names, the second with a pretrained model owning the variable \<^verbatim>\<open>crepe/w\<close>; a
  model whose processor group returns the signal \<open>7\<close>; a file system in which the
  directory \<^verbatim>\<open>~/$RUN\<close> expands to \<^verbatim>\<open>/home/user/run1\<close>, which holds no checkpoint; and
  a model built by \<^verbatim>\<open>Model.__init__\<close> with the defaults.
\<close>

definition example_losses :: "string \<Rightarrow> string \<Rightarrow> (nat, int) loss list" where
  "example_losses n1 n2 =
     [\<lparr>loss_name = n1, loss_call = (\<lambda>audio audio_gen. Inr 1), pretrained_model = None\<rparr>,
      \<lparr>loss_name = n2, loss_call = (\<lambda>audio audio_gen. Inr 2),
        pretrained_model = Some \<lparr>trainable_variables =
          [\<lparr>var_name = ''crepe/w'', var_shape = [2], var_dtype = ''float32''\<rparr>]\<rparr>\<rparr>]"

definition example_model :: "(nat, int) loss list \<Rightarrow> (nat, nat, int) model" where
  "example_model ls =
     \<lparr>preprocessor = (\<lambda>features is_training. Inr 0),
      encoder = None,
      decoder = Some (\<lambda>conditioning. Inr conditioning),
      processor_group = Some \<lparr>pg_name = ''processor_group'',
        pg_get_outputs = (\<lambda>conditioning. Inr [''processor_group'' \<mapsto> [''signal'' \<mapsto> 7]])\<rparr>,
      losses = ls,
      tb_metrics = Map.empty\<rparr>"

definition example_environment :: "unit environment" where
  "example_environment =
     \<lparr>expandvars = (\<lambda>p. if p = ''~/$RUN'' then ''~/run1'' else p),
      expanduser = (\<lambda>p. if p = ''~/run1'' then ''/home/user/run1'' else p),
      latest_checkpoint =
        (\<lambda>p. if p = ''/home/user/run1'' then None else Some (p @ ''/ckpt-100'')),
      load_checkpoint = (\<lambda>var_list sess path. Inr sess)\<rparr>"

definition example_decoder :: "nat \<Rightarrow> error + nat" where
  "example_decoder conditioning = Inr conditioning"

definition example_init ::
  "(nat \<Rightarrow> error + nat) option \<Rightarrow> (nat, nat) processor_group option \<Rightarrow> (nat, nat, int) model" where
  "example_init decoder_arg processor_group_arg =
     Model_init (\<lambda>features is_training. Inr 0)
       \<lparr>loss_name = ''spectral_loss'', loss_call = (\<lambda>audio audio_gen. Inr 1),
         pretrained_model = None\<rparr>
       None None decoder_arg processor_group_arg None"

section \<open>Facts about the synthesizer primitives\<close>

lemma float32_overflow_gt_1: "1 < float32_overflow"
  by (simp add: float32_overflow_def)

lemma overflow_unit: "0 \<le> q \<Longrightarrow> q \<le> 1 \<Longrightarrow> overflow q = Fin q"
  using float32_overflow_gt_1 by (simp add: overflow_def)

lemma foldl_fadd_PInf: "foldl fadd PInf (map Fin xs) = PInf"
  by (induction xs) simp_all

lemma foldl_fadd_nonneg:
  "\<forall>x\<in>set xs. 0 \<le> x \<Longrightarrow> 0 \<le> acc \<Longrightarrow> acc < float32_overflow \<Longrightarrow>
   foldl fadd (Fin acc) (map Fin xs) =
     (if acc + sum_list xs < float32_overflow then Fin (acc + sum_list xs) else PInf)"
proof (induction xs arbitrary: acc)
  case Nil
  then show ?case by simp
next
  case (Cons x xs)
  from Cons.prems have x: "0 \<le> x" and xs: "\<forall>y\<in>set xs. 0 \<le> y" by simp_all
  from xs have s: "0 \<le> sum_list xs" by (simp add: sum_list_nonneg)
  show ?case
  proof (cases "acc + x < float32_overflow")
    case True
    with x Cons.prems(2) float32_overflow_gt_1
    have "fadd (Fin acc) (Fin x) = Fin (acc + x)" by (simp add: overflow_def)
    moreover from x Cons.prems(2) have "0 \<le> acc + x" by simp
    ultimately show ?thesis using Cons.IH[OF xs _ True] by (simp add: add.assoc)
  next
    case False
    then have "fadd (Fin acc) (Fin x) = PInf" by (simp add: overflow_def)
    moreover from False s have "\<not> acc + sum_list (x # xs) < float32_overflow" by simp
    ultimately show ?thesis by (simp add: foldl_fadd_PInf)
  qed
qed

lemma reduce_sum_nonneg:
  assumes "\<forall>x\<in>set row. 0 \<le> x"
  shows "reduce_sum row =
           (if sum_list row < float32_overflow then Fin (sum_list row) else PInf)"
  using foldl_fadd_nonneg[OF assms, of 0] float32_overflow_gt_1
  by (simp add: reduce_sum_def fsum_def)

lemma sum_list_div: "sum_list (map (\<lambda>x. x / s) row) = sum_list row / (s::real)"
  by (induction row) (simp_all add: add_divide_distrib)

lemma member_le_sum_list_real:
  "\<forall>x\<in>set xs. 0 \<le> (x::real) \<Longrightarrow> y \<in> set xs \<Longrightarrow> y \<le> sum_list xs"
proof (induction xs)
  case Nil
  then show ?case by simp
next
  case (Cons x xs)
  then have "0 \<le> sum_list xs" by (simp add: sum_list_nonneg)
  with Cons show ?case by auto
qed

lemma normalize_frame_sum:
  assumes nn: "\<forall>x\<in>set row. 0 \<le> x"
    and fin: "is_finite (reduce_sum row)"
    and nz: "reduce_sum row \<noteq> Fin 0"
  shows "fsum (normalize_frame row) = Fin 1"
proof -
  define s where "s = sum_list row"
  from fin reduce_sum_nonneg[OF nn] have rs: "reduce_sum row = Fin s"
    by (auto simp: s_def split: if_splits)
  with nz have "s \<noteq> 0" by simp
  moreover from nn have "0 \<le> s" by (simp add: s_def sum_list_nonneg)
  ultimately have pos: "0 < s" by simp
  have q: "fdiv x (Fin s) = Fin (x / s)" if "x \<in> set row" for x
  proof -
    from that nn have "0 \<le> x" by simp
    moreover from member_le_sum_list_real[OF nn that] have "x \<le> s" by (simp add: s_def)
    ultimately have "0 \<le> x / s" and "x / s \<le> 1" using pos by simp_all
    then have "overflow (x / s) = Fin (x / s)" by (rule overflow_unit)
    with pos show ?thesis by simp
  qed
  then have nf: "normalize_frame row = map Fin (map (\<lambda>x. x / s) row)"
    by (simp add: normalize_frame_def rs)
  have nn': "\<forall>y\<in>set (map (\<lambda>x. x / s) row). 0 \<le> y"
    using nn pos by simp
  have "sum_list (map (\<lambda>x. x / s) row) = 1"
    using pos by (simp add: sum_list_div s_def)
  with reduce_sum_nonneg[OF nn'] float32_overflow_gt_1
  have "reduce_sum (map (\<lambda>x. x / s) row) = Fin 1" by simp
  then show ?thesis by (simp add: nf reduce_sum_def)
qed

lemma normalize_nth:
  "b < length x \<Longrightarrow> t < length (x ! b) \<Longrightarrow> normalize x ! b ! t = normalize_frame (x ! b ! t)"
  by (simp add: normalize_def)

lemma normalize_length: "length (normalize x) = length x"
  by (simp add: normalize_def)

lemma normalize_length2: "b < length x \<Longrightarrow> length (normalize x ! b) = length (x ! b)"
  by (simp add: normalize_def)

lemma get_controls_InrD:
  "get_controls self a h f = Inr c \<Longrightarrow>
   \<exists>pre. pre_normalization self h f = Inr pre \<and>
     c = \<lparr>amplitudes = scale_controls (amp_scale_fn self) a,
          harmonic_distribution = normalize pre, f0_hz = f\<rparr>"
  by (auto simp: get_controls_def split: sum.splits)


lemma same_shapeD:
  assumes "same_shape x y"
  shows "length x = length y"
    and "b < length y \<Longrightarrow> length (x ! b) = length (y ! b)"
    and "b < length y \<Longrightarrow> t < length (y ! b) \<Longrightarrow> length (x ! b ! t) = length (y ! b ! t)"
proof -
  from assms show l: "length x = length y"
    by (simp add: same_shape_def list_all2_lengthD)
  { assume b: "b < length y"
    with assms l have r: "list_all2 (\<lambda>c d. length c = length d) (x ! b) (y ! b)"
      by (simp add: same_shape_def list_all2_nthD2)
    then show l2: "length (x ! b) = length (y ! b)" by (rule list_all2_lengthD)
    { assume t: "t < length (y ! b)"
      show "length (x ! b ! t) = length (y ! b ! t)"
        using list_all2_nthD2[OF r t] by simp } }
qed

lemma remove_above_nyquist_InrD:
  assumes "remove_above_nyquist fr am sr = Inr out"
  shows "same_shape fr am"
    and "out = map2 (map2 (map2 (\<lambda>f a. if real_of_int sr / 2 < f then 0 else a))) fr am"
  using assms by (auto simp: remove_above_nyquist_def split: if_splits)

lemma remove_above_nyquist_length:
  assumes "remove_above_nyquist fr am sr = Inr out"
  shows "length out = length am"
  using remove_above_nyquist_InrD[OF assms] by (simp add: same_shapeD)

lemma remove_above_nyquist_length2:
  assumes "remove_above_nyquist fr am sr = Inr out" and "b < length am"
  shows "length (out ! b) = length (am ! b)"
  using remove_above_nyquist_InrD[OF assms(1)] assms(2) by (simp add: same_shapeD)

lemma remove_above_nyquist_length3:
  assumes "remove_above_nyquist fr am sr = Inr out" and "b < length am" and "t < length (am ! b)"
  shows "length (out ! b ! t) = length (am ! b ! t)"
  using remove_above_nyquist_InrD[OF assms(1)] assms(2,3) by (simp add: same_shapeD)

lemma remove_above_nyquist_nth:
  assumes "remove_above_nyquist fr am sr = Inr out"
    and "b < length am" and "t < length (am ! b)" and "k < length (am ! b ! t)"
  shows "out ! b ! t ! k = (if real_of_int sr / 2 < fr ! b ! t ! k then 0 else am ! b ! t ! k)"
  using remove_above_nyquist_InrD[OF assms(1)] assms(2-4) by (simp add: same_shapeD)

lemma get_harmonic_frequencies_InrD:
  assumes "get_harmonic_frequencies f n = Inr hf"
  shows "list_all (list_all (\<lambda>fr. length fr = 1)) f"
    and "hf = map (map (\<lambda>fr. map (\<lambda>k. hd fr * real k) [1..<Suc n])) f"
  using assms by (auto simp: get_harmonic_frequencies_def split: if_splits)

lemma get_harmonic_frequencies_length:
  assumes "get_harmonic_frequencies f n = Inr hf"
  shows "length hf = length f"
  by (simp add: get_harmonic_frequencies_InrD(2)[OF assms])

lemma get_harmonic_frequencies_length2:
  assumes "get_harmonic_frequencies f n = Inr hf" and "b < length f"
  shows "length (hf ! b) = length (f ! b)"
  using assms(2) by (simp add: get_harmonic_frequencies_InrD(2)[OF assms(1)])

lemma get_harmonic_frequencies_nth:
  assumes "get_harmonic_frequencies f n = Inr hf"
    and "b < length f" and "t < length (f ! b)"
  shows "length (f ! b ! t) = 1"
    and "length (hf ! b ! t) = n"
    and "k < n \<Longrightarrow> hf ! b ! t ! k = f ! b ! t ! 0 * real (k + 1)"
proof -
  note hf = get_harmonic_frequencies_InrD(2)[OF assms(1)]
  from get_harmonic_frequencies_InrD(1)[OF assms(1)] assms(2,3)
  show len1: "length (f ! b ! t) = 1"
    by (simp add: list_all_length)
  show "length (hf ! b ! t) = n" using assms(2,3) by (simp add: hf)
  { assume k: "k < n"
    from len1 have "hd (f ! b ! t) = f ! b ! t ! 0"
      by (cases "f ! b ! t") simp_all
    with k assms(2,3) show "hf ! b ! t ! k = f ! b ! t ! 0 * real (k + 1)"
      by (simp add: hf del: upt_Suc) }
qed

lemma normalize_frame_length: "length (normalize_frame row) = length row"
  by (simp add: normalize_frame_def)

lemma has_shape_nth:
  "has_shape B T K x \<longleftrightarrow>
     length x = B \<and> (\<forall>b<B. length (x ! b) = T \<and> (\<forall>t<T. length (x ! b ! t) = K))"
  unfolding has_shape_def list_all_length by auto

lemma normalize_shape: "has_shape B T K x \<Longrightarrow> has_shape B T K (normalize x)"
  by (simp add: has_shape_nth normalize_length normalize_length2 normalize_nth
      normalize_frame_length)

lemma trailing_dim_shape:
  assumes "has_shape B T K x" and "0 < B" and "0 < T"
  shows "trailing_dim x = K"
proof -
  from assms have l: "length x = B" and r: "length (x ! 0) = T" and c: "length (x ! 0 ! 0) = K"
    by (simp_all add: has_shape_nth)
  from l assms(2) obtain r0 rs where x: "x = r0 # rs" by (cases x) auto
  with r assms(3) obtain c0 cs where r0: "r0 = c0 # cs" by (cases r0) auto
  from x r0 c show ?thesis by (simp add: trailing_dim_def)
qed

lemma same_shape_has_shape:
  assumes "has_shape B T K x" and "has_shape B T K' y" and "0 < B \<and> 0 < T \<longrightarrow> K = K'"
  shows "same_shape x y"
  unfolding same_shape_def list_all2_conv_all_nth
  using assms by (auto simp: has_shape_nth)

lemma get_harmonic_frequencies_shape:
  assumes "has_shape B T 1 f"
  shows "\<exists>hf. get_harmonic_frequencies f n = Inr hf \<and> has_shape B T n hf"
proof -
  from assms have "list_all (list_all (\<lambda>fr. length fr = 1)) f"
    by (auto simp: has_shape_def list_all_iff)
  then have "get_harmonic_frequencies f n
               = Inr (map (map (\<lambda>fr. map (\<lambda>k. hd fr * real k) [1..<Suc n])) f)"
    by (simp add: get_harmonic_frequencies_def)
  moreover from assms
  have "has_shape B T n (map (map (\<lambda>fr. map (\<lambda>k. hd fr * real k) [1..<Suc n])) f)"
    by (simp add: has_shape_nth del: upt_Suc)
  ultimately show ?thesis by blast
qed

lemma bandlimit_succeeds:
  assumes h: "has_shape B T K harmonic_dist"
    and f: "normalize_below_nyquist self \<longrightarrow> has_shape B T 1 f"
  shows "\<exists>pre. bandlimit self harmonic_dist f = Inr pre \<and> has_shape B T K pre"
proof (cases "normalize_below_nyquist self")
  case False
  with h show ?thesis by (simp add: bandlimit_def)
next
  case True
  with f have fs: "has_shape B T 1 f" by simp
  from get_harmonic_frequencies_shape[OF fs] obtain hf where
    hf: "get_harmonic_frequencies f (trailing_dim harmonic_dist) = Inr hf"
    and hfs: "has_shape B T (trailing_dim harmonic_dist) hf"
    by blast
  have "same_shape hf harmonic_dist"
    using hfs h by (rule same_shape_has_shape) (simp add: trailing_dim_shape[OF h])
  then obtain pre where
    pre: "remove_above_nyquist hf harmonic_dist (sample_rate self) = Inr pre"
    by (simp add: remove_above_nyquist_def)
  from h have "has_shape B T K pre"
    by (simp add: has_shape_nth remove_above_nyquist_length[OF pre]
        remove_above_nyquist_length2[OF pre] remove_above_nyquist_length3[OF pre])
  with True hf pre show ?thesis by (simp add: bandlimit_def)
qed

lemma pre_normalization_nth:
  assumes nb: "normalize_below_nyquist self"
    and pre: "pre_normalization self h f = Inr pre"
    and b: "b < length pre" and t: "t < length (pre ! b)" and k: "k < length (pre ! b ! t)"
  shows "b < length f \<and> t < length (f ! b) \<and> length (f ! b ! t) = 1"
    and "pre ! b ! t ! k =
           (if real_of_int (sample_rate self) / 2 < f ! b ! t ! 0 * real (k + 1) then 0
            else scale_controls (amp_scale_fn self) h ! b ! t ! k)"
proof -
  define sc where "sc = scale_controls (amp_scale_fn self) h"
  from nb pre obtain hf where
    hf: "get_harmonic_frequencies f (trailing_dim sc) = Inr hf"
    and ra: "remove_above_nyquist hf sc (sample_rate self) = Inr pre"
    by (auto simp: pre_normalization_def bandlimit_def Let_def sc_def split: sum.splits)
  note ss = remove_above_nyquist_InrD(1)[OF ra]
  have l1: "length pre = length sc"
    using ra by (rule remove_above_nyquist_length)
  with b have b': "b < length sc" by simp
  have l2: "length (pre ! b) = length (sc ! b)"
    using ra b' by (rule remove_above_nyquist_length2)
  with t have t': "t < length (sc ! b)" by simp
  have l3: "length (pre ! b ! t) = length (sc ! b ! t)"
    using ra b' t' by (rule remove_above_nyquist_length3)
  with k have k': "k < length (sc ! b ! t)" by simp
  have bf: "b < length f"
    using b' same_shapeD(1)[OF ss] get_harmonic_frequencies_length[OF hf] by simp
  have tf: "t < length (f ! b)"
    using t' same_shapeD(2)[OF ss b'] get_harmonic_frequencies_length2[OF hf bf] by simp
  have kn: "k < trailing_dim sc"
    using k' same_shapeD(3)[OF ss b' t'] get_harmonic_frequencies_nth(2)[OF hf bf tf] by simp
  show "b < length f \<and> t < length (f ! b) \<and> length (f ! b ! t) = 1"
    using bf tf get_harmonic_frequencies_nth(1)[OF hf bf tf] by simp
  have "pre ! b ! t ! k =
          (if real_of_int (sample_rate self) / 2 < hf ! b ! t ! k then 0 else sc ! b ! t ! k)"
    using remove_above_nyquist_nth[OF ra b' t' k'] .
  also have "hf ! b ! t ! k = f ! b ! t ! 0 * real (k + 1)"
    using get_harmonic_frequencies_nth(3)[OF hf bf tf kn] .
  finally show "pre ! b ! t ! k =
           (if real_of_int (sample_rate self) / 2 < f ! b ! t ! 0 * real (k + 1) then 0
            else scale_controls (amp_scale_fn self) h ! b ! t ! k)"
    by (simp add: sc_def)
qed

lemma sum_list_all_zero: "\<forall>x\<in>set xs. x = (0::real) \<Longrightarrow> sum_list xs = 0"
  by (induction xs) simp_all

text \<open>The definitions a concrete call of \<open>get_controls\<close> unfolds.\<close>

lemmas eval_defs = get_controls_def pre_normalization_def bandlimit_def scale_controls_def trailing_dim_def
  get_harmonic_frequencies_def remove_above_nyquist_def same_shape_def normalize_def normalize_frame_def
  reduce_sum_def fsum_def overflow_def float32_overflow_def

section \<open>Properties of \<^verbatim>\<open>Additive.get_controls\<close> and \<^verbatim>\<open>FilteredNoise.get_controls\<close>\<close>

text \<open>
  At a batch/frame position where every harmonic frequency exceeds half the sample rate,
  bandlimiting zeroes the whole frame, its sum is zero, and the normalization divides zero
  by zero: every entry of the frame is NaN.
\<close>

lemma all_harmonics_above_nyquist_NaN:
  assumes nb: "normalize_below_nyquist self"
    and pre: "pre_normalization self h f = Inr pre"
    and gc: "get_controls self a h f = Inr c"
    and b: "b < length pre" and t: "t < length (pre ! b)"
    and above: "\<forall>k<length (pre ! b ! t).
                  real_of_int (sample_rate self) / 2 < f ! b ! t ! 0 * real (k + 1)"
  shows "harmonic_distribution c ! b ! t = replicate (length (pre ! b ! t)) NaN"
proof -
  have z: "\<forall>x\<in>set (pre ! b ! t). x = 0"
  proof
    fix x assume "x \<in> set (pre ! b ! t)"
    then obtain k where k: "k < length (pre ! b ! t)" and x: "x = pre ! b ! t ! k"
      by (auto simp: in_set_conv_nth)
    from pre_normalization_nth(2)[OF nb pre b t k] above k x show "x = 0" by simp
  qed
  then have s: "sum_list (pre ! b ! t) = 0" by (rule sum_list_all_zero)
  from z have "\<forall>x\<in>set (pre ! b ! t). 0 \<le> x" by auto
  from reduce_sum_nonneg[OF this] s float32_overflow_gt_1
  have rs: "reduce_sum (pre ! b ! t) = Fin 0" by simp
  from pre gc have hd: "harmonic_distribution c = normalize pre"
    by (auto dest: get_controls_InrD)
  have "normalize_frame (pre ! b ! t) = map (\<lambda>x. NaN) (pre ! b ! t)"
    using z by (auto simp: normalize_frame_def rs)
  then have "normalize_frame (pre ! b ! t) = replicate (length (pre ! b ! t)) NaN"
    by (simp add: map_replicate_const)
  with b t show ?thesis by (simp add: hd normalize_nth)
qed

text \<open>
  C1 (the code does not do this). The claim: where every harmonic frequency
  \<^verbatim>\<open>f0_hz * k\<close> exceeds half the sample rate, \<^verbatim>\<open>get_controls\<close> produces no NaN or Inf
  in \<^verbatim>\<open>harmonic_distribution\<close>. With the default sample rate 16000 and a fundamental
  of 9000 Hz both harmonics lie above 8000 Hz; the returned distribution is NaN in both
  entries, without a scaling function and with any entrywise scaling function \<open>g\<close>.
\<close>

theorem get_controls_all_above_nyquist_NaN:
  "get_controls \<lparr>n_samples = 64000, sample_rate = 16000, amp_scale_fn = None,
       normalize_below_nyquist = True, name = ''additive_synth''\<rparr>
     [[[1]]] [[[1, 1]]] [[[9000]]]
   = Inr \<lparr>amplitudes = [[[1]]], harmonic_distribution = [[[NaN, NaN]]],
          f0_hz = [[[9000]]]\<rparr> \<and>
   get_controls \<lparr>n_samples = 64000, sample_rate = 16000,
       amp_scale_fn = Some (map (map (map g))),
       normalize_below_nyquist = True, name = ''additive_synth''\<rparr>
     [[[x]]] [[[y, z]]] [[[9000]]]
   = Inr \<lparr>amplitudes = [[[g x]]], harmonic_distribution = [[[NaN, NaN]]],
          f0_hz = [[[9000]]]\<rparr> \<and>
   \<not> is_finite NaN"
  by (simp add: eval_defs)

lemma sum_list_pos_member:
  "\<forall>x\<in>set xs. 0 \<le> (x::real) \<Longrightarrow> k < length xs \<Longrightarrow> 0 < xs ! k \<Longrightarrow> 0 < sum_list xs"
proof (induction xs arbitrary: k)
  case Nil
  then show ?case by simp
next
  case (Cons x xs)
  have nn: "0 \<le> sum_list xs" using Cons.prems(1) by (simp add: sum_list_nonneg)
  show ?case
  proof (cases k)
    case 0
    with Cons.prems nn show ?thesis by simp
  next
    case (Suc k')
    with Cons.prems have "0 < sum_list xs" by (auto intro: Cons.IH)
    with Cons.prems(1) show ?thesis by simp
  qed
qed

text \<open>
  Where the scaled entries of a frame are positive (as the default scaling function makes
  them) and at least one harmonic of the frame survives bandlimiting, the sum of the
  frame before normalization is not zero.
\<close>

lemma surviving_harmonic_sum_nonzero:
  assumes nb: "normalize_below_nyquist self"
    and pre: "pre_normalization self h f = Inr pre"
    and b: "b < length pre" and t: "t < length (pre ! b)" and k: "k < length (pre ! b ! t)"
    and pos: "\<forall>j<length (pre ! b ! t). 0 < scale_controls (amp_scale_fn self) h ! b ! t ! j"
    and survives: "f ! b ! t ! 0 * real (k + 1) \<le> real_of_int (sample_rate self) / 2"
  shows "sum_list (pre ! b ! t) \<noteq> 0"
proof -
  have nn: "\<forall>x\<in>set (pre ! b ! t). 0 \<le> x"
  proof
    fix x assume "x \<in> set (pre ! b ! t)"
    then obtain j where j: "j < length (pre ! b ! t)" and x: "x = pre ! b ! t ! j"
      by (auto simp: in_set_conv_nth)
    from pre_normalization_nth(2)[OF nb pre b t j] pos j x show "0 \<le> x"
      by (auto simp: less_imp_le)
  qed
  from pre_normalization_nth(2)[OF nb pre b t k] pos k survives
  have "0 < pre ! b ! t ! k" by simp
  from sum_list_pos_member[OF nn k this] show ?thesis by simp
qed

text \<open>
  C2 (as the code has it). For every input whose scaled harmonic distribution has
  shape \<^verbatim>\<open>[B, T, K]\<close> and, when bandlimiting is on, whose \<^verbatim>\<open>f0_hz\<close> has shape
  \<^verbatim>\<open>[B, T, 1]\<close>, \<^verbatim>\<open>get_controls\<close> returns, the returned \<^verbatim>\<open>harmonic_distribution\<close> has
  shape \<^verbatim>\<open>[B, T, K]\<close>, and at every batch/frame position where the entries before
  normalization are not negative and their float32 sum is finite and not zero, the
  returned frame sums to 1 along the harmonic axis (rounding apart).
\<close>

theorem harmonic_distribution_sums_to_one:
  assumes "has_shape B T K (scale_controls (amp_scale_fn self) h)"
    and "normalize_below_nyquist self \<longrightarrow> has_shape B T 1 f"
  shows "\<exists>c pre. get_controls self a h f = Inr c \<and> pre_normalization self h f = Inr pre \<and>
           has_shape B T K pre \<and> has_shape B T K (harmonic_distribution c) \<and>
           (\<forall>b<B. \<forall>t<T.
              (\<forall>x\<in>set (pre ! b ! t). 0 \<le> x) \<and>
              is_finite (reduce_sum (pre ! b ! t)) \<and> reduce_sum (pre ! b ! t) \<noteq> Fin 0 \<longrightarrow>
              fsum (harmonic_distribution c ! b ! t) = Fin 1)"
proof -
  from bandlimit_succeeds[OF assms] obtain pre where
    pre: "pre_normalization self h f = Inr pre" and shape: "has_shape B T K pre"
    by (auto simp: pre_normalization_def)
  define c where "c = \<lparr>amplitudes = scale_controls (amp_scale_fn self) a,
                       harmonic_distribution = normalize pre, f0_hz = f\<rparr>"
  from pre have gc: "get_controls self a h f = Inr c"
    by (simp add: get_controls_def c_def)
  have hd: "harmonic_distribution c = normalize pre" by (simp add: c_def)
  from shape have shape': "has_shape B T K (harmonic_distribution c)"
    by (simp add: hd normalize_shape)
  have "\<forall>b<B. \<forall>t<T.
          (\<forall>x\<in>set (pre ! b ! t). 0 \<le> x) \<and>
          is_finite (reduce_sum (pre ! b ! t)) \<and> reduce_sum (pre ! b ! t) \<noteq> Fin 0 \<longrightarrow>
          fsum (harmonic_distribution c ! b ! t) = Fin 1"
  proof (intro allI impI)
    fix b t
    assume b: "b < B" and t: "t < T"
      and ok: "(\<forall>x\<in>set (pre ! b ! t). 0 \<le> x) \<and>
               is_finite (reduce_sum (pre ! b ! t)) \<and> reduce_sum (pre ! b ! t) \<noteq> Fin 0"
    from shape b t have "b < length pre" and "t < length (pre ! b)"
      by (simp_all add: has_shape_nth)
    then have "harmonic_distribution c ! b ! t = normalize_frame (pre ! b ! t)"
      by (simp add: hd normalize_nth)
    with ok show "fsum (harmonic_distribution c ! b ! t) = Fin 1"
      by (simp add: normalize_frame_sum)
  qed
  with gc pre shape shape' show ?thesis by blast
qed

theorem harmonic_distribution_sums_to_one_witness:
  "get_controls \<lparr>n_samples = 64000, sample_rate = 16000, amp_scale_fn = None,
       normalize_below_nyquist = True, name = ''additive_synth''\<rparr>
     [[[1], [1]], [[1], [1]]]
     [[[1, 3], [2, 2]], [[1, 1], [0, 5]]]
     [[[3000], [5000]], [[9000], [100]]]
   = Inr \<lparr>amplitudes = [[[1], [1]], [[1], [1]]],
          harmonic_distribution =
            [[[Fin (1/4), Fin (3/4)], [Fin 1, Fin 0]], [[NaN, NaN], [Fin 0, Fin 1]]],
          f0_hz = [[[3000], [5000]], [[9000], [100]]]\<rparr> \<and>
   fsum [Fin (1/4), Fin (3/4)] = Fin 1 \<and> fsum [Fin 1, Fin 0] = Fin 1 \<and>
   fsum [Fin 0, Fin 1] = Fin 1"
proof -
  let ?cfg = "\<lparr>n_samples = 64000, sample_rate = 16000, amp_scale_fn = None,
       normalize_below_nyquist = True, name = ''additive_synth''\<rparr>
       :: (real tensor \<Rightarrow> real tensor) additive"
  let ?a = "[[[1], [1]], [[1], [1]]] :: real tensor"
  let ?h = "[[[1, 3], [2, 2]], [[1, 1], [0, 5]]] :: real tensor"
  let ?f = "[[[3000], [5000]], [[9000], [100]]] :: real tensor"
  let ?c = "\<lparr>amplitudes = ?a,
          harmonic_distribution =
            [[[Fin (1/4), Fin (3/4)], [Fin 1, Fin 0]], [[NaN, NaN], [Fin 0, Fin 1]]],
          f0_hz = ?f\<rparr>"
  have g: "get_controls ?cfg ?a ?h ?f = Inr ?c"
    by (simp add: eval_defs)
  have p: "pre_normalization ?cfg ?h ?f = Inr [[[1, 3], [2, 0]], [[0, 0], [0, 5]]]"
    by (simp add: eval_defs)
  have s1: "has_shape 2 2 2 (scale_controls (amp_scale_fn ?cfg) ?h)"
    by (simp add: has_shape_def scale_controls_def)
  have s2: "normalize_below_nyquist ?cfg \<longrightarrow> has_shape 2 2 1 ?f"
    by (simp add: has_shape_def)
  from harmonic_distribution_sums_to_one[OF s1 s2, of ?a] g p
  have all: "\<forall>b<2. \<forall>t<2.
              (\<forall>x\<in>set ([[[1, 3], [2, 0]], [[0, 0], [0, 5 :: real]]] ! b ! t). 0 \<le> x) \<and>
              is_finite (reduce_sum ([[[1, 3], [2, 0]], [[0, 0], [0, 5]]] ! b ! t)) \<and>
              reduce_sum ([[[1, 3], [2, 0]], [[0, 0], [0, 5]]] ! b ! t) \<noteq> Fin 0 \<longrightarrow>
              fsum (harmonic_distribution ?c ! b ! t) = Fin 1"
    by auto
  have r: "reduce_sum [1, 3] = Fin 4" "reduce_sum [2, 0] = Fin 2" "reduce_sum [0, 5] = Fin 5"
    by (simp_all add: reduce_sum_def fsum_def overflow_def float32_overflow_def)
  from all[rule_format, of 0 0] r have "fsum [Fin (1/4), Fin (3/4)] = Fin 1" by simp
  moreover from all[rule_format, of 0 1] r have "fsum [Fin 1, Fin 0] = Fin 1" by simp
  moreover from all[rule_format, of 1 1] r have "fsum [Fin 0, Fin 1] = Fin 1" by simp
  ultimately show ?thesis using g by simp
qed

text \<open>
  The claim C2 as stated fails. With magnitudes \<^verbatim>\<open>3e38\<close> the float32 sum of the frame
  overflows and the returned frame is all zero; with a frame whose large entries cancel,
  the sum is \<^verbatim>\<open>0.25\<close>, the quotients overflow, and the returned frame sums to NaN. In
  both frames the sum before normalization is not zero.
\<close>

theorem frame_sum_overflow:
  "get_controls \<lparr>n_samples = 64000, sample_rate = 16000, amp_scale_fn = None,
       normalize_below_nyquist = True, name = ''additive_synth''\<rparr>
     [[[1]]]
     [[[300000000000000000000000000000000000000, 300000000000000000000000000000000000000]]]
     [[[440]]]
   = Inr \<lparr>amplitudes = [[[1]]], harmonic_distribution = [[[Fin 0, Fin 0]]],
          f0_hz = [[[440]]]\<rparr> \<and>
   reduce_sum [300000000000000000000000000000000000000, 300000000000000000000000000000000000000]
     = PInf \<and>
   fsum [Fin 0, Fin 0] \<noteq> Fin 1 \<and>
   get_controls \<lparr>n_samples = 64000, sample_rate = 16000, amp_scale_fn = None,
       normalize_below_nyquist = True, name = ''additive_synth''\<rparr>
     [[[1]]] [[[2 ^ 127, - (2 ^ 127), 1 / 4]]] [[[440]]]
   = Inr \<lparr>amplitudes = [[[1]]], harmonic_distribution = [[[PInf, NInf, Fin 1]]],
          f0_hz = [[[440]]]\<rparr> \<and>
   reduce_sum [2 ^ 127, - (2 ^ 127), 1 / 4] = Fin (1 / 4) \<and>
   fsum [PInf, NInf, Fin 1] \<noteq> Fin 1"
  by (simp add: eval_defs)

text \<open>
  C3 (the code does not do this). The claim: with \<^verbatim>\<open>normalize_below_nyquist\<close> set,
  \<^verbatim>\<open>get_controls\<close> zeroes every harmonic-distribution entry whose harmonic frequency
  exceeds half the sample rate and leaves the others unsuppressed. In the second frame
  below (5000 Hz) the second harmonic is zeroed and the first is kept. In the first
  frame (8500 Hz) both harmonics exceed 8000 Hz and are zero before the normalization,
  but the entries returned for them are NaN, not zero.
\<close>

theorem suppressed_entries_returned_NaN:
  "pre_normalization \<lparr>n_samples = 64000, sample_rate = 16000, amp_scale_fn = None,
       normalize_below_nyquist = True, name = ''additive_synth''\<rparr>
     [[[2, 5], [2, 5]]] [[[8500], [5000]]]
   = Inr [[[0, 0], [2, 0]]] \<and>
   get_controls \<lparr>n_samples = 64000, sample_rate = 16000, amp_scale_fn = None,
       normalize_below_nyquist = True, name = ''additive_synth''\<rparr>
     [[[1], [1]]] [[[2, 5], [2, 5]]] [[[8500], [5000]]]
   = Inr \<lparr>amplitudes = [[[1], [1]]],
          harmonic_distribution = [[[NaN, NaN], [Fin 1, Fin 0]]],
          f0_hz = [[[8500], [5000]]]\<rparr> \<and>
   NaN \<noteq> Fin 0"
  by (simp add: eval_defs)

lemma call_scale_pure:
  "call_scale (map_option pure_callable g) x w = (scale_controls g x, w)"
  by (cases g) (simp_all add: call_scale_def scale_controls_def pure_callable_def)

text \<open>
  A scaling function with an effect: it adds the value of a counter to every entry and
  increments the counter. Two calls of \<^verbatim>\<open>FilteredNoise.get_controls\<close> with the same input
  then return different controls: without the condition on the scaling function the
  control derivation is not deterministic.
\<close>

lemma effectful_scaling_not_deterministic:
  "run_fn_get_controls \<lparr>fn_n_samples = 64000, window_size = 257,
       fn_amp_scale_fn = Some (\<lambda>x w. (map (map (map (\<lambda>v. v + real w))) x, Suc w)),
       noise_fade_fn = None, fn_name = ''filtered_noise_synth''\<rparr> [[[1]]] 0
   = (Inr \<lparr>magnitudes = [[[1]]]\<rparr>, 1) \<and>
   run_fn_get_controls \<lparr>fn_n_samples = 64000, window_size = 257,
       fn_amp_scale_fn = Some (\<lambda>x w. (map (map (map (\<lambda>v. v + real w))) x, Suc w)),
       noise_fade_fn = None, fn_name = ''filtered_noise_synth''\<rparr> [[[1]]] 1
   = (Inr \<lparr>magnitudes = [[[2]]]\<rparr>, 2)"
  by (simp add: run_fn_get_controls_def call_scale_def)

text \<open>
  C9. Control derivation is deterministic. The state a Python call can read and change
  besides its arguments (the random generator among it) is explicit in
  \<open>run_get_controls\<close> and \<open>run_fn_get_controls\<close>. When the configured scaling function
  is \<^verbatim>\<open>None\<close> or has no effect, two calls of \<^verbatim>\<open>Additive.get_controls\<close> with identical
  inputs and configuration return identical results from any two states \<open>w1\<close> and
  \<open>w2\<close>, in particular from the state before and the state after the first call, and
  leave the state as it was; likewise for \<^verbatim>\<open>FilteredNoise.get_controls\<close>. The result is
  that of the functions \<open>get_controls\<close> and \<open>fn_get_controls\<close> with the scaling function
  as a function of its argument alone.
\<close>

theorem get_controls_deterministic:
  assumes "amp_scale_fn self = map_option pure_callable g"
    and "fn_amp_scale_fn fself = map_option pure_callable g'"
  shows "fst (run_get_controls self a h f w1) = fst (run_get_controls self a h f w2) \<and>
         snd (run_get_controls self a h f w1) = w1 \<and>
         fst (run_get_controls self a h f w1)
           = get_controls \<lparr>n_samples = n_samples self, sample_rate = sample_rate self,
               amp_scale_fn = g, normalize_below_nyquist = normalize_below_nyquist self,
               name = name self\<rparr> a h f \<and>
         fst (run_fn_get_controls fself x w1) = fst (run_fn_get_controls fself x w2) \<and>
         snd (run_fn_get_controls fself x w1) = w1 \<and>
         fst (run_fn_get_controls fself x w1)
           = fn_get_controls \<lparr>fn_n_samples = fn_n_samples fself,
               window_size = window_size fself, fn_amp_scale_fn = g',
               noise_fade_fn = noise_fade_fn fself, fn_name = fn_name fself\<rparr> x"
proof -
  have run: "run_get_controls self a h f w
      = (get_controls \<lparr>n_samples = n_samples self, sample_rate = sample_rate self,
               amp_scale_fn = g, normalize_below_nyquist = normalize_below_nyquist self,
               name = name self\<rparr> a h f, w)" for w
    by (simp add: run_get_controls_def assms(1) call_scale_pure get_controls_def
        pre_normalization_def bandlimit_def split: sum.splits)
  have run_fn: "run_fn_get_controls fself x w
      = (fn_get_controls \<lparr>fn_n_samples = fn_n_samples fself,
               window_size = window_size fself, fn_amp_scale_fn = g',
               noise_fade_fn = noise_fade_fn fself, fn_name = fn_name fself\<rparr> x, w)" for w
    by (simp add: run_fn_get_controls_def assms(2) call_scale_pure fn_get_controls_def)
  show ?thesis by (simp add: run run_fn)
qed

theorem get_controls_deterministic_witness:
  "fst (run_get_controls \<lparr>n_samples = 64000, sample_rate = 16000,
          amp_scale_fn = Some (pure_callable (map (map (map (\<lambda>v. v * v + 1))))),
          normalize_below_nyquist = True, name = ''additive_synth''\<rparr>
        [[[1], [2]]] [[[1, 3], [0, 2]]] [[[5000], [440]]] (0 :: nat))
   = fst (run_get_controls \<lparr>n_samples = 64000, sample_rate = 16000,
          amp_scale_fn = Some (pure_callable (map (map (map (\<lambda>v. v * v + 1))))),
          normalize_below_nyquist = True, name = ''additive_synth''\<rparr>
        [[[1], [2]]] [[[1, 3], [0, 2]]] [[[5000], [440]]] (7 :: nat)) \<and>
   fst (run_fn_get_controls \<lparr>fn_n_samples = 64000, window_size = 257,
          fn_amp_scale_fn = None, noise_fade_fn = None,
          fn_name = ''filtered_noise_synth''\<rparr> [[[1, 2]]] (0 :: nat))
   = fst (run_fn_get_controls \<lparr>fn_n_samples = 64000, window_size = 257,
          fn_amp_scale_fn = None, noise_fade_fn = None,
          fn_name = ''filtered_noise_synth''\<rparr> [[[1, 2]]] (7 :: nat))"
proof -
  have a: "amp_scale_fn \<lparr>n_samples = 64000, sample_rate = 16000,
          amp_scale_fn = Some (pure_callable (map (map (map (\<lambda>v. v * v + 1))))),
          normalize_below_nyquist = True, name = ''additive_synth''\<rparr>
      = map_option pure_callable (Some (map (map (map (\<lambda>v. v * v + 1)))))"
    by simp
  have b: "fn_amp_scale_fn \<lparr>fn_n_samples = 64000, window_size = 257,
          fn_amp_scale_fn = None, noise_fade_fn = None,
          fn_name = ''filtered_noise_synth''\<rparr> = map_option pure_callable None"
    by simp
  from get_controls_deterministic[OF a b, of "[[[1], [2]]]" "[[[1, 3], [0, 2]]]"
      "[[[5000], [440]]]" 0 7 "[[[1, 2]]]"]
  show ?thesis by blast
qed

text \<open>
  C10. Whenever \<^verbatim>\<open>Additive.get_controls\<close> returns, the \<^verbatim>\<open>f0_hz\<close> entry of the
  control dictionary is exactly the \<^verbatim>\<open>f0_hz\<close> argument, whatever the configuration.
\<close>

theorem get_controls_f0_unchanged:
  "get_controls self a h f = Inr c \<Longrightarrow> f0_hz c = f"
  by (auto simp: get_controls_def split: sum.splits)

theorem get_controls_f0_unchanged_witness:
  "get_controls \<lparr>n_samples = 64000, sample_rate = 16000, amp_scale_fn = None,
       normalize_below_nyquist = True, name = ''additive_synth''\<rparr>
     [[[1]]] [[[1, 3]]] [[[5000]]]
   = Inr \<lparr>amplitudes = [[[1]]], harmonic_distribution = [[[Fin 1, Fin 0]]],
          f0_hz = [[[5000]]]\<rparr> \<and>
   f0_hz \<lparr>amplitudes = [[[1]]], harmonic_distribution = [[[Fin 1, Fin 0]]],
          f0_hz = [[[5000]]]\<rparr> = [[[5000]]]"
proof -
  have h: "get_controls \<lparr>n_samples = 64000, sample_rate = 16000, amp_scale_fn = None,
       normalize_below_nyquist = True, name = ''additive_synth''\<rparr>
     [[[1]]] [[[1, 3]]] [[[5000]]]
   = Inr \<lparr>amplitudes = [[[1]]], harmonic_distribution = [[[Fin 1, Fin 0]]],
          f0_hz = [[[5000]]]\<rparr>"
    by (simp add: eval_defs)
  from get_controls_f0_unchanged[OF h] h show ?thesis by simp
qed

text \<open>
  C8 (as the code has it). Without a scaling function the control paths check nothing:
  \<^verbatim>\<open>FilteredNoise.get_controls\<close> returns the magnitudes exactly as given, and
  \<^verbatim>\<open>Additive.get_controls\<close> never fails with \<^verbatim>\<open>InvalidControlError\<close> and, whenever
  it returns, returns the amplitudes exactly as given, non-positive values included.
\<close>

theorem unscaled_controls_pass_through:
  assumes "amp_scale_fn self = None" and "fn_amp_scale_fn fself = None"
  shows "fn_get_controls fself nn_outputs = Inr \<lparr>magnitudes = nn_outputs\<rparr> \<and>
         get_controls self a h f \<noteq> Inl InvalidControlError \<and>
         (\<forall>c. get_controls self a h f = Inr c \<longrightarrow> amplitudes c = a)"
proof -
  have 1: "fn_get_controls fself nn_outputs = Inr \<lparr>magnitudes = nn_outputs\<rparr>"
    by (simp add: fn_get_controls_def scale_controls_def assms(2))
  have 2: "get_controls self a h f \<noteq> Inl InvalidControlError"
    by (auto simp: get_controls_def pre_normalization_def bandlimit_def Let_def
        get_harmonic_frequencies_def remove_above_nyquist_def split: sum.splits if_splits)
  have 3: "\<forall>c. get_controls self a h f = Inr c \<longrightarrow> amplitudes c = a"
    by (auto simp: get_controls_def scale_controls_def assms(1) split: sum.splits)
  from 1 2 3 show ?thesis by simp
qed

theorem unscaled_controls_pass_through_witness:
  "fn_get_controls \<lparr>fn_n_samples = 64000, window_size = 257, fn_amp_scale_fn = None,
       noise_fade_fn = None, fn_name = ''filtered_noise_synth''\<rparr> [[[-2, 3]]]
   = Inr \<lparr>magnitudes = [[[-2, 3]]]\<rparr> \<and>
   get_controls \<lparr>n_samples = 64000, sample_rate = 16000, amp_scale_fn = None,
       normalize_below_nyquist = True, name = ''additive_synth''\<rparr>
     [[[-2]]] [[[1, 3]]] [[[440]]] \<noteq> Inl InvalidControlError"
proof -
  have a: "amp_scale_fn \<lparr>n_samples = 64000, sample_rate = 16000, amp_scale_fn = None,
       normalize_below_nyquist = True, name = ''additive_synth''\<rparr> = None" by simp
  have b: "fn_amp_scale_fn \<lparr>fn_n_samples = 64000, window_size = 257, fn_amp_scale_fn = None,
       noise_fade_fn = None, fn_name = ''filtered_noise_synth''\<rparr> = None" by simp
  from unscaled_controls_pass_through[OF a b] show ?thesis by blast
qed

text \<open>
  The claim C8 as stated fails: an amplitude of \<open>-1\<close> and magnitudes \<open>-1\<close> and \<open>0\<close>
  are returned as controls, not rejected.
\<close>

theorem nonpositive_controls_not_rejected:
  "get_controls \<lparr>n_samples = 64000, sample_rate = 16000, amp_scale_fn = None,
       normalize_below_nyquist = True, name = ''additive_synth''\<rparr>
     [[[-1]]] [[[1, 1]]] [[[440]]]
   = Inr \<lparr>amplitudes = [[[-1]]], harmonic_distribution = [[[Fin (1/2), Fin (1/2)]]],
          f0_hz = [[[440]]]\<rparr> \<and>
   fn_get_controls \<lparr>fn_n_samples = 64000, window_size = 257, fn_amp_scale_fn = None,
       noise_fade_fn = None, fn_name = ''filtered_noise_synth''\<rparr> [[[-1, 0]]]
   = Inr \<lparr>magnitudes = [[[-1, 0]]]\<rparr>"
  by (simp add: eval_defs fn_get_controls_def)

section \<open>Properties of the model wrapper\<close>

lemma loss_loop_other:
  "loss_loop ls features ag (acc, ld, tb) = Inr (acc', ld', tb') \<Longrightarrow>
   \<forall>l\<in>set ls. k \<noteq> ''losses/'' @ loss_name l \<Longrightarrow> ld' k = ld k"
proof (induction ls arbitrary: acc ld tb)
  case Nil
  then show ?case by simp
next
  case (Cons l ls)
  then show ?case
    by (auto simp: Let_def split: sum.splits)
qed

lemma loss_loop_terms:
  "loss_loop ls features ag (acc, ld, tb) = Inr (acc', ld', tb') \<Longrightarrow>
   \<exists>terms. map (loss_term features ag) ls = map Inr terms \<and> acc' = foldl (+) acc terms"
proof (induction ls arbitrary: acc ld tb)
  case Nil
  then show ?case by simp
next
  case (Cons l ls)
  from Cons.prems obtain t where t: "loss_term features ag l = Inr t"
    and rest: "loss_loop ls features ag
                 (acc + t, ld(''losses/'' @ loss_name l \<mapsto> t),
                  add_tb_metric (''losses/'' @ loss_name l) t tb) = Inr (acc', ld', tb')"
    by (auto simp: Let_def split: sum.splits)
  from Cons.IH[OF rest] obtain ts where
    "map (loss_term features ag) ls = map Inr ts" and "acc' = foldl (+) (acc + t) ts"
    by blast
  with t have "map (loss_term features ag) (l # ls) = map Inr (t # ts) \<and>
               acc' = foldl (+) acc (t # ts)"
    by simp
  then show ?case by blast
qed

lemma loss_loop_key:
  "loss_loop ls features ag (acc, ld, tb) = Inr (acc', ld', tb') \<Longrightarrow>
   map (loss_term features ag) ls = map Inr terms \<Longrightarrow>
   i < length ls \<Longrightarrow>
   \<forall>j. i < j \<and> j < length ls \<longrightarrow> loss_name (ls ! j) \<noteq> loss_name (ls ! i) \<Longrightarrow>
   ld' (''losses/'' @ loss_name (ls ! i)) = Some (terms ! i)"
proof (induction ls arbitrary: acc ld tb terms i)
  case Nil
  then show ?case by simp
next
  case (Cons l ls)
  from Cons.prems(2) obtain t ts where terms: "terms = t # ts"
    and t: "loss_term features ag l = Inr t"
    and ts: "map (loss_term features ag) ls = map Inr ts"
    by (cases terms) auto
  from Cons.prems(1) t have rest: "loss_loop ls features ag
                 (acc + t, ld(''losses/'' @ loss_name l \<mapsto> t),
                  add_tb_metric (''losses/'' @ loss_name l) t tb) = Inr (acc', ld', tb')"
    by (simp add: Let_def)
  show ?case
  proof (cases i)
    case 0
    have "\<forall>l'\<in>set ls. ''losses/'' @ loss_name l \<noteq> ''losses/'' @ loss_name l'"
    proof
      fix l' assume "l' \<in> set ls"
      then obtain j where j: "j < length ls" and l': "l' = ls ! j"
        by (auto simp: in_set_conv_nth)
      from Cons.prems(4)[rule_format, of "Suc j"] 0 j l'
      show "''losses/'' @ loss_name l \<noteq> ''losses/'' @ loss_name l'" by auto
    qed
    from loss_loop_other[OF rest this] 0 terms show ?thesis by simp
  next
    case (Suc i')
    have "\<forall>j. i' < j \<and> j < length ls \<longrightarrow> loss_name (ls ! j) \<noteq> loss_name (ls ! i')"
    proof (intro allI impI)
      fix j assume "i' < j \<and> j < length ls"
      with Cons.prems(4)[rule_format, of "Suc j"] Suc
      show "loss_name (ls ! j) \<noteq> loss_name (ls ! i')" by simp
    qed
    from Cons.IH[OF rest ts _ this, of ] Cons.prems(3) Suc terms show ?thesis by simp
  qed
qed

lemma synthesize_InrD:
  "synthesize self features tr = Inr (po, ag) \<Longrightarrow>
   \<exists>pg grp. processor_group self = Some pg \<and> po (pg_name pg) = Some grp \<and> grp ''signal'' = Some ag"
  by (auto simp: synthesize_def split: sum.splits option.splits)

text \<open>The definitions a concrete call of \<open>get_outputs\<close> unfolds.\<close>

lemmas model_eval_defs = example_model_def example_losses_def get_outputs_def synthesize_def
  encode_def loss_term_def add_tb_metric_def output_entry_def Let_def

text \<open>
  C4 (as the code has it). Whenever \<^verbatim>\<open>get_outputs\<close> returns, the dictionary holds
  \<^verbatim>\<open>'audio_gen'\<close>, equal to \<^verbatim>\<open>outputs[processor_group.name]['signal']\<close>; every loss
  term \<^verbatim>\<open>loss(features['audio'], audio_gen)\<close> was computed; \<^verbatim>\<open>'total_loss'\<close> is the
  sum of the terms accumulated from \<open>0\<close> in the declaration order of the losses; and for
  every loss that is the last one declared with its name, the key
  \<^verbatim>\<open>'losses/<name>'\<close> holds the term of that loss.
\<close>

theorem get_outputs_entries:
  assumes "get_outputs self gs features tr = Inr (outputs, self')"
  shows "\<exists>pg pg_outputs grp audio_gen terms.
     processor_group self = Some pg \<and>
     synthesize self features tr = Inr (pg_outputs, audio_gen) \<and>
     pg_outputs (pg_name pg) = Some grp \<and> grp ''signal'' = Some audio_gen \<and>
     outputs ''audio_gen'' = Some (Tensor audio_gen) \<and>
     map (loss_term features audio_gen) (losses self) = map Inr terms \<and>
     outputs ''total_loss'' = Some (Scalar (foldl (+) 0 terms)) \<and>
     (\<forall>i<length (losses self).
        (\<forall>j. i < j \<and> j < length (losses self) \<longrightarrow>
             loss_name (losses self ! j) \<noteq> loss_name (losses self ! i)) \<longrightarrow>
        outputs (''losses/'' @ loss_name (losses self ! i)) = Some (Scalar (terms ! i)))"
proof -
  from assms obtain po ag acc ld tb where
    syn: "synthesize self features tr = Inr (po, ag)"
    and loop: "loss_loop (losses self) features ag (0, Map.empty, tb_metrics self)
                 = Inr (acc, ld, tb)"
    and out: "outputs = ((map_option Group \<circ> po)(''audio_gen'' \<mapsto> Tensor ag)
                 ++ (map_option Scalar \<circ> ld))(''total_loss'' \<mapsto> Scalar acc)"
    by (auto simp: get_outputs_def Let_def split: sum.splits prod.splits)
  from synthesize_InrD[OF syn] obtain pg grp where
    pg: "processor_group self = Some pg" "po (pg_name pg) = Some grp" "grp ''signal'' = Some ag"
    by blast
  from loss_loop_terms[OF loop] obtain terms where
    terms: "map (loss_term features ag) (losses self) = map Inr terms"
    and acc: "acc = foldl (+) 0 terms"
    by blast
  have "ld ''audio_gen'' = None"
    using loss_loop_other[OF loop, of "''audio_gen''"] by simp
  then have ag: "outputs ''audio_gen'' = Some (Tensor ag)"
    by (simp add: out map_add_def)
  have tl: "outputs ''total_loss'' = Some (Scalar (foldl (+) 0 terms))"
    by (simp add: out acc)
  have keys: "\<forall>i<length (losses self).
        (\<forall>j. i < j \<and> j < length (losses self) \<longrightarrow>
             loss_name (losses self ! j) \<noteq> loss_name (losses self ! i)) \<longrightarrow>
        outputs (''losses/'' @ loss_name (losses self ! i)) = Some (Scalar (terms ! i))"
  proof (intro allI impI)
    fix i assume i: "i < length (losses self)"
      and last: "\<forall>j. i < j \<and> j < length (losses self) \<longrightarrow>
             loss_name (losses self ! j) \<noteq> loss_name (losses self ! i)"
    from loss_loop_key[OF loop terms i last]
    show "outputs (''losses/'' @ loss_name (losses self ! i)) = Some (Scalar (terms ! i))"
      by (simp add: out map_add_def)
  qed
  from syn pg ag terms tl keys show ?thesis by blast
qed

theorem get_outputs_entries_witness:
  "output_entry
     (get_outputs (example_model (example_losses ''spectral_loss'' ''embedding_loss'')) 0
        [''audio'' \<mapsto> 5] True) ''audio_gen'' = Inr (Tensor 7) \<and>
   output_entry
     (get_outputs (example_model (example_losses ''spectral_loss'' ''embedding_loss'')) 0
        [''audio'' \<mapsto> 5] True) ''total_loss'' = Inr (Scalar ((0 + 1) + 2)) \<and>
   output_entry
     (get_outputs (example_model (example_losses ''spectral_loss'' ''embedding_loss'')) 0
        [''audio'' \<mapsto> 5] True) ''losses/spectral_loss'' = Inr (Scalar 1) \<and>
   output_entry
     (get_outputs (example_model (example_losses ''spectral_loss'' ''embedding_loss'')) 0
        [''audio'' \<mapsto> 5] True) ''losses/embedding_loss'' = Inr (Scalar 2)"
proof -
  let ?m = "example_model (example_losses ''spectral_loss'' ''embedding_loss'')"
  let ?f = "[''audio'' \<mapsto> 5::nat]"
  have "\<exists>p. get_outputs ?m 0 ?f True = Inr p"
    by (simp add: model_eval_defs)
  then obtain outputs self' where g: "get_outputs ?m 0 ?f True = Inr (outputs, self')"
    by force
  from get_outputs_entries[OF g] obtain pg_outputs audio_gen terms where
    syn: "synthesize ?m ?f True = Inr (pg_outputs, audio_gen)"
    and ag: "outputs ''audio_gen'' = Some (Tensor audio_gen)"
    and terms: "map (loss_term ?f audio_gen) (losses ?m) = map Inr terms"
    and tl: "outputs ''total_loss'' = Some (Scalar (foldl (+) 0 terms))"
    and keys: "\<forall>i<length (losses ?m).
        (\<forall>j. i < j \<and> j < length (losses ?m) \<longrightarrow>
             loss_name (losses ?m ! j) \<noteq> loss_name (losses ?m ! i)) \<longrightarrow>
        outputs (''losses/'' @ loss_name (losses ?m ! i)) = Some (Scalar (terms ! i))"
    by blast
  from syn have a7: "audio_gen = 7"
    by (simp add: model_eval_defs)
  from terms have t12: "terms = [1, 2]"
    by (auto simp: model_eval_defs)
  have len: "length (losses ?m) = 2"
    by (simp add: model_eval_defs)
  have names: "loss_name (losses ?m ! 0) = ''spectral_loss''"
    "loss_name (losses ?m ! 1) = ''embedding_loss''"
    by (simp_all add: model_eval_defs)
  have last0: "\<forall>j. 0 < j \<and> j < length (losses ?m) \<longrightarrow>
                 loss_name (losses ?m ! j) \<noteq> loss_name (losses ?m ! 0)"
  proof (intro allI impI)
    fix j assume "0 < j \<and> j < length (losses ?m)"
    with len have "j = 1" by simp
    with names show "loss_name (losses ?m ! j) \<noteq> loss_name (losses ?m ! 0)"
      by simp
  qed
  have last1: "\<forall>j. 1 < j \<and> j < length (losses ?m) \<longrightarrow>
                 loss_name (losses ?m ! j) \<noteq> loss_name (losses ?m ! 1)"
    using len by auto
  have k0: "outputs ''losses/spectral_loss'' = Some (Scalar 1)"
    using spec[OF keys, of 0] last0 names(1) by (simp add: len t12)
  have k1: "outputs ''losses/embedding_loss'' = Some (Scalar 2)"
    using spec[OF keys, of 1] last1 names(2) by (simp add: len t12)
  from g ag tl k0 k1 a7 t12 show ?thesis
    by (simp add: output_entry_def)
qed

text \<open>
  The claim C4 as stated fails for two losses declared with the same name: the key
  \<^verbatim>\<open>'losses/spectral_loss'\<close> holds the term of the second loss, \<open>2\<close>, while the term of
  the first loss is \<open>1\<close>.
\<close>

theorem get_outputs_duplicate_loss_names:
  "loss_name (losses (example_model (example_losses ''spectral_loss'' ''spectral_loss'')) ! 0)
     = ''spectral_loss'' \<and>
   loss_term [''audio'' \<mapsto> 5] 7
     (losses (example_model (example_losses ''spectral_loss'' ''spectral_loss'')) ! 0) = Inr 1 \<and>
   output_entry
     (get_outputs (example_model (example_losses ''spectral_loss'' ''spectral_loss'')) 0
        [''audio'' \<mapsto> 5] True)
     ''losses/spectral_loss'' = Inr (Scalar 2)"
  by (simp add: model_eval_defs)

lemma pretrained_models_iff:
  "m \<in> set (pretrained_models self) \<longleftrightarrow> (\<exists>l\<in>set (losses self). pretrained_model l = Some m)"
  by (force simp: pretrained_models_def split: option.splits)

lemma frozen_names_iff:
  "n \<in> set (map var_name (concat (map trainable_variables (pretrained_models self)))) \<longleftrightarrow>
   (\<exists>l\<in>set (losses self). \<exists>m. pretrained_model l = Some m \<and>
       n \<in> var_name ` set (trainable_variables m))"
proof -
  have "n \<in> set (map var_name (concat (map trainable_variables (pretrained_models self)))) \<longleftrightarrow>
        (\<exists>m\<in>set (pretrained_models self). n \<in> var_name ` set (trainable_variables m))"
    by auto
  also have "\<dots> \<longleftrightarrow> (\<exists>l\<in>set (losses self). \<exists>m. pretrained_model l = Some m \<and>
       n \<in> var_name ` set (trainable_variables m))"
    using pretrained_models_iff[of _ self] by blast
  finally show ?thesis .
qed

text \<open>
  C5. \<^verbatim>\<open>get_variables_to_optimize\<close> returns the trainable variables, in their order,
  without those whose name is the name of a trainable variable of the pretrained model
  of some loss: no such variable is returned, and every other trainable variable is.
\<close>

theorem get_variables_to_optimize_exact:
  "get_variables_to_optimize self all_trainables =
     filter (\<lambda>x. \<not> (\<exists>l\<in>set (losses self). \<exists>m. pretrained_model l = Some m \<and>
                      var_name x \<in> var_name ` set (trainable_variables m)))
       all_trainables"
  by (simp only: get_variables_to_optimize_def Let_def frozen_names_iff)

theorem get_variables_to_optimize_exact_witness:
  "get_variables_to_optimize (example_model (example_losses ''spectral_loss'' ''embedding_loss''))
     [\<lparr>var_name = ''decoder/w'', var_shape = [3], var_dtype = ''float32''\<rparr>,
      \<lparr>var_name = ''crepe/w'', var_shape = [2], var_dtype = ''float32''\<rparr>,
      \<lparr>var_name = ''decoder/b'', var_shape = [1], var_dtype = ''float32''\<rparr>]
   = [\<lparr>var_name = ''decoder/w'', var_shape = [3], var_dtype = ''float32''\<rparr>,
      \<lparr>var_name = ''decoder/b'', var_shape = [1], var_dtype = ''float32''\<rparr>]"
  by (simp add: get_variables_to_optimize_exact) (simp add: example_model_def example_losses_def)

text \<open>
  C6 (as the code has it). When the directory, after the expansion of environment
  variables and of the user's home, holds no checkpoint, \<^verbatim>\<open>Model.restore\<close> fails: with
  the \<^verbatim>\<open>ValueError\<close> of the saver.
\<close>

theorem restore_without_checkpoint_fails:
  assumes "latest_checkpoint env (expanduser env (expandvars env checkpoint_dir)) = None"
  shows "restore self env all_trainables sess checkpoint_dir = Inl ValueError"
  using assms
  by (simp add: restore_def Saver_def Saver_restore_def Let_def)

theorem restore_without_checkpoint_fails_witness:
  "latest_checkpoint example_environment
     (expanduser example_environment (expandvars example_environment ''~/$RUN'')) = None \<and>
   restore (example_model (example_losses ''spectral_loss'' ''embedding_loss''))
     example_environment
     [\<lparr>var_name = ''decoder/w'', var_shape = [3], var_dtype = ''float32''\<rparr>] () ''~/$RUN''
   = Inl ValueError"
proof -
  have h: "latest_checkpoint example_environment
     (expanduser example_environment (expandvars example_environment ''~/$RUN'')) = None"
    by (simp add: example_environment_def)
  from restore_without_checkpoint_fails[OF h] h show ?thesis by simp
qed

text \<open>
  The claim C6 as stated fails: the error of a restore from a directory without a
  checkpoint is not \<^verbatim>\<open>CheckpointNotFoundError\<close>.
\<close>

theorem restore_not_CheckpointNotFoundError:
  "latest_checkpoint example_environment
     (expanduser example_environment (expandvars example_environment ''~/$RUN'')) = None \<and>
   restore (example_model (example_losses ''spectral_loss'' ''embedding_loss''))
     example_environment
     [\<lparr>var_name = ''decoder/w'', var_shape = [3], var_dtype = ''float32''\<rparr>] () ''~/$RUN''
   \<noteq> Inl CheckpointNotFoundError \<and>
   restore (example_model (example_losses ''spectral_loss'' ''embedding_loss''))
     example_environment
     [\<lparr>var_name = ''decoder/w'', var_shape = [3], var_dtype = ''float32''\<rparr>] () ''~/$RUN''
   = Inl ValueError"
  by (simp add: restore_def Saver_def Saver_restore_def Let_def example_environment_def
      get_variables_to_optimize_def pretrained_models_def example_model_def example_losses_def)

text \<open>
  C7 (as the code has it). A model constructed without a decoder or without a processor
  group is constructed without error, and every call of \<^verbatim>\<open>get_outputs\<close> on it fails:
  with \<^verbatim>\<open>TypeError\<close> when the decoder is missing and the preprocessor and encoder
  return, with \<^verbatim>\<open>AttributeError\<close> when the decoder returns and the processor group is
  missing.
\<close>

theorem missing_collaborator_fails:
  assumes "self = Model_init default_preprocessor spectral_loss preprocessor_arg encoder_arg
                    decoder_arg processor_group_arg losses_arg"
    and "decoder_arg = None \<or> processor_group_arg = None"
  shows "(\<exists>e. get_outputs self gs features is_training = Inl e) \<and>
         (\<forall>c. decoder_arg = None \<and> encode self features is_training = Inr c \<longrightarrow>
              get_outputs self gs features is_training = Inl TypeError) \<and>
         (\<forall>dec c c'. decoder_arg = Some dec \<and> encode self features is_training = Inr c \<and>
              dec c = Inr c' \<longrightarrow>
              get_outputs self gs features is_training = Inl AttributeError)"
proof -
  have d: "decoder self = decoder_arg" and p: "processor_group self = processor_group_arg"
    by (simp_all add: assms(1) Model_init_def)
  from assms(2) d p have 1: "\<exists>e. synthesize self features is_training = Inl e"
    by (auto simp: synthesize_def split: sum.splits option.splits)
  then have a: "\<exists>e. get_outputs self gs features is_training = Inl e"
    by (auto simp: get_outputs_def)
  have b: "\<forall>c. decoder_arg = None \<and> encode self features is_training = Inr c \<longrightarrow>
              get_outputs self gs features is_training = Inl TypeError"
    using d by (auto simp: get_outputs_def synthesize_def)
  have c: "\<forall>dec c c'. decoder_arg = Some dec \<and> encode self features is_training = Inr c \<and>
              dec c = Inr c' \<longrightarrow>
              get_outputs self gs features is_training = Inl AttributeError"
    using d p assms(2) by (auto simp: get_outputs_def synthesize_def)
  from a b c show ?thesis by blast
qed

theorem missing_collaborator_fails_witness:
  "get_outputs (example_init None None) 0 [''audio'' \<mapsto> 5] True = Inl TypeError \<and>
   get_outputs (example_init (Some example_decoder) None) 0 [''audio'' \<mapsto> 5] True
     = Inl AttributeError"
proof -
  have e1: "encode (example_init None None) [''audio'' \<mapsto> 5] True = Inr 0"
    by (simp add: example_init_def Model_init_def encode_def)
  have e2: "encode (example_init (Some example_decoder) None) [''audio'' \<mapsto> 5] True = Inr 0"
    by (simp add: example_init_def Model_init_def encode_def)
  have d: "example_decoder 0 = Inr 0" by (simp add: example_decoder_def)
  have h1: "(None :: (nat \<Rightarrow> error + nat) option) = None \<or>
            (None :: (nat, nat) processor_group option) = None" by simp
  have h2: "Some example_decoder = None \<or> (None :: (nat, nat) processor_group option) = None"
    by simp
  from missing_collaborator_fails[OF example_init_def h1, of 0 "[''audio'' \<mapsto> 5]" True] e1
  have r1: "get_outputs (example_init None None) 0 [''audio'' \<mapsto> 5] True = Inl TypeError"
    by blast
  from missing_collaborator_fails[OF example_init_def h2, of 0 "[''audio'' \<mapsto> 5]" True] e2 d
  have r2: "get_outputs (example_init (Some example_decoder) None) 0 [''audio'' \<mapsto> 5] True
     = Inl AttributeError"
    by blast
  from r1 r2 show ?thesis by simp
qed

text \<open>
  The claim C7 as stated fails: the error of the first use is \<^verbatim>\<open>TypeError\<close> or
  \<^verbatim>\<open>AttributeError\<close>, not \<^verbatim>\<open>MisconfiguredModelError\<close>.
\<close>

theorem missing_collaborator_not_MisconfiguredModelError:
  "get_outputs (example_init None None) 0 [''audio'' \<mapsto> 5] True = Inl TypeError \<and>
   get_outputs (example_init (Some example_decoder) None) 0 [''audio'' \<mapsto> 5] True
     = Inl AttributeError \<and>
   get_outputs (example_init None None) 0 [''audio'' \<mapsto> 5] True
     \<noteq> Inl MisconfiguredModelError"
  by (simp add: example_init_def example_decoder_def Model_init_def make_iterable_def
      get_outputs_def synthesize_def encode_def)

end
